theory Spec2Isabelle
  imports Complex_Main
begin

section \<open>Scalars\<close>

text \<open>
  The program computes with IEEE doubles (Python \<open>float\<close>, \<open>numpy.float64\<close>).
  A finite double is read as the real number it denotes; rounding to the nearest double
  is outside the model. The three special values are kept, because the program produces
  and tests them: \<open>0/0\<close> in a pandas division is \<open>NaN\<close>, comparisons with \<open>NaN\<close> are
  false, reductions skip it. Two layers of arithmetic follow. The operations
  \<open>exact_add\<close>, \<open>exact_mul\<close>, \<open>exact_div\<close> treat the special values as IEEE does and
  are exact on finite values; \<open>metrics.py\<close> and the fitness evaluator are read with them.
  The operations \<open>fadd\<close>, \<open>fmul\<close>, \<open>fdiv\<close> are the float operations with overflow: a
  finite result whose magnitude reaches the overflow threshold of doubles is an
  infinity. The primitive library and the signal compiler are read with them.
\<close>

datatype pyfloat = Fin real | PInf | MInf | NaN

fun is_finite :: "pyfloat \<Rightarrow> bool" where
  "is_finite (Fin x) = True"
| "is_finite v = False"

text \<open>The comparison \<open>a < b\<close>: false as soon as one side is \<open>NaN\<close>.\<close>

fun flt :: "pyfloat \<Rightarrow> pyfloat \<Rightarrow> bool" where
  "flt NaN b = False"
| "flt a NaN = False"
| "flt (Fin a) (Fin b) = (a < b)"
| "flt a MInf = False"
| "flt MInf b = True"
| "flt PInf b = False"
| "flt (Fin a) PInf = True"

definition fgt :: "pyfloat \<Rightarrow> pyfloat \<Rightarrow> bool" where
  "fgt a b = flt b a"

text \<open>The comparison \<open>a <= b\<close>.\<close>

fun fle :: "pyfloat \<Rightarrow> pyfloat \<Rightarrow> bool" where
  "fle NaN b = False"
| "fle a NaN = False"
| "fle (Fin a) (Fin b) = (a \<le> b)"
| "fle MInf b = True"
| "fle a MInf = False"
| "fle a PInf = True"
| "fle PInf (Fin b) = False"

fun fneg :: "pyfloat \<Rightarrow> pyfloat" where
  "fneg (Fin x) = Fin (- x)"
| "fneg PInf = MInf"
| "fneg MInf = PInf"
| "fneg NaN = NaN"

fun exact_add :: "pyfloat \<Rightarrow> pyfloat \<Rightarrow> pyfloat" where
  "exact_add NaN b = NaN"
| "exact_add a NaN = NaN"
| "exact_add (Fin a) (Fin b) = Fin (a + b)"
| "exact_add PInf MInf = NaN"
| "exact_add MInf PInf = NaN"
| "exact_add PInf b = PInf"
| "exact_add MInf b = MInf"
| "exact_add (Fin a) b = b"

definition exact_sub :: "pyfloat \<Rightarrow> pyfloat \<Rightarrow> pyfloat" where
  "exact_sub a b = exact_add a (fneg b)"

text \<open>An infinity of the sign of \<open>s\<close>; \<open>inf * 0\<close> is \<open>NaN\<close>.\<close>

definition signed_inf :: "real \<Rightarrow> pyfloat" where
  "signed_inf s = (if s = 0 then NaN else if 0 < s then PInf else MInf)"

fun exact_mul :: "pyfloat \<Rightarrow> pyfloat \<Rightarrow> pyfloat" where
  "exact_mul NaN b = NaN"
| "exact_mul a NaN = NaN"
| "exact_mul (Fin a) (Fin b) = Fin (a * b)"
| "exact_mul (Fin a) PInf = signed_inf a"
| "exact_mul (Fin a) MInf = signed_inf (- a)"
| "exact_mul PInf (Fin b) = signed_inf b"
| "exact_mul MInf (Fin b) = signed_inf (- b)"
| "exact_mul PInf PInf = PInf"
| "exact_mul MInf MInf = PInf"
| "exact_mul PInf MInf = MInf"
| "exact_mul MInf PInf = MInf"

text \<open>
  Division as pandas performs it (no exception): \<open>0/0\<close> and \<open>inf/inf\<close> are
  \<open>NaN\<close>, a non-zero finite value over zero is an infinity, a finite value over an
  infinity is zero. Zero is unsigned in the model and divides like \<open>+0.0\<close>.
\<close>

fun exact_div :: "pyfloat \<Rightarrow> pyfloat \<Rightarrow> pyfloat" where
  "exact_div NaN b = NaN"
| "exact_div a NaN = NaN"
| "exact_div (Fin a) (Fin b) = (if b = 0 then signed_inf a else Fin (a / b))"
| "exact_div (Fin a) b = Fin 0"
| "exact_div PInf (Fin b) = (if 0 \<le> b then PInf else MInf)"
| "exact_div MInf (Fin b) = (if 0 \<le> b then MInf else PInf)"
| "exact_div a b = NaN"

text \<open>
  Overflow under round-to-nearest: an exact result of magnitude at least
  \<open>2^1024 - 2^970\<close> (half an ulp above the largest double) becomes an infinity.
\<close>

definition overflow_threshold :: real where
  "overflow_threshold = 2 ^ 1024 - 2 ^ 970"

definition overflow :: "real \<Rightarrow> pyfloat" where
  "overflow r =
     (if overflow_threshold \<le> r then PInf
      else if r \<le> - overflow_threshold then MInf
      else Fin r)"

text \<open>The float operations \<open>a + b\<close>, \<open>a - b\<close>, \<open>a * b\<close>, \<open>a / b\<close> (division as numpy
  performs it; Python's own \<open>/\<close> differs only on a zero divisor, where it raises).\<close>

fun fadd :: "pyfloat \<Rightarrow> pyfloat \<Rightarrow> pyfloat" where
  "fadd (Fin a) (Fin b) = overflow (a + b)"
| "fadd a b = exact_add a b"

definition fsub :: "pyfloat \<Rightarrow> pyfloat \<Rightarrow> pyfloat" where
  "fsub a b = fadd a (fneg b)"

fun fmul :: "pyfloat \<Rightarrow> pyfloat \<Rightarrow> pyfloat" where
  "fmul (Fin a) (Fin b) = overflow (a * b)"
| "fmul a b = exact_mul a b"

fun fdiv :: "pyfloat \<Rightarrow> pyfloat \<Rightarrow> pyfloat" where
  "fdiv (Fin a) (Fin b) = (if b = 0 then signed_inf a else overflow (a / b))"
| "fdiv a b = exact_div a b"

section \<open>Errors\<close>

datatype error = IndexError | ValueError | TypeError

section \<open>metrics.py\<close>

text \<open>
  A pandas Series of finite numbers is the list of its values in index order. The
  binary operations of the program combine series that share one index, so they act
  position by position. The arithmetic of the series is exact: an equity curve is a
  product of factors \<open>1 + r\<close> of period returns and stays far inside the range of
  doubles, and neither rounding nor overflow is modelled here.
\<close>

fun cumprod_from :: "real \<Rightarrow> real list \<Rightarrow> real list" where
  "cumprod_from acc [] = []"
| "cumprod_from acc (x # xs) = (acc * x) # cumprod_from (acc * x) xs"

definition cumprod :: "real list \<Rightarrow> real list" where
  "cumprod xs = cumprod_from 1 xs"

fun cummax_from :: "real \<Rightarrow> real list \<Rightarrow> real list" where
  "cummax_from m [] = []"
| "cummax_from m (x # xs) = max m x # cummax_from (max m x) xs"

fun cummax :: "real list \<Rightarrow> real list" where
  "cummax [] = []"
| "cummax (x # xs) = x # cummax_from x xs"

text \<open>\<open>Series.min()\<close> with pandas' default \<open>skipna=True\<close>: the least value that is
  not \<open>NaN\<close>, and \<open>NaN\<close> when there is none (an empty or all-\<open>NaN\<close> series).\<close>

fun min_skipna :: "pyfloat \<Rightarrow> pyfloat \<Rightarrow> pyfloat" where
  "min_skipna NaN b = b"
| "min_skipna a NaN = a"
| "min_skipna a b = (if flt b a then b else a)"

definition series_min :: "pyfloat list \<Rightarrow> pyfloat" where
  "series_min xs = foldr min_skipna xs NaN"

text \<open>\<open>series.iloc[-1]\<close>: the last value; IndexError on an empty series.\<close>

definition iloc_last :: "'a list \<Rightarrow> error + 'a" where
  "iloc_last xs = (if xs = [] then Inl IndexError else Inr (last xs))"

definition equity_curve :: "real list \<Rightarrow> real list" where
  "equity_curve returns = cumprod (map (\<lambda>r. 1 + r) returns)"

definition max_drawdown :: "real list \<Rightarrow> pyfloat" where
  "max_drawdown returns =
     (let ec = equity_curve returns;
          roll_max = cummax ec;
          dd = map2 (\<lambda>e m. exact_sub (exact_div (Fin e) (Fin m)) (Fin 1)) ec roll_max
      in series_min dd)"

section \<open>strategy\_ga.py: the fitness evaluator\<close>

text \<open>The total compounded return \<open>equity.iloc[-1] - 1\<close> of \<open>returns * signal\<close>.\<close>

definition total_return :: "real list \<Rightarrow> real list \<Rightarrow> error + real" where
  "total_return signal returns =
     (let equity = cumprod (map (\<lambda>r. 1 + r) (map2 (*) returns signal))
      in case iloc_last equity of Inl e \<Rightarrow> Inl e | Inr l \<Rightarrow> Inr (l - 1))"

text \<open>\<open>fitness_function\<close> returns the one-element tuple \<open>(score,)\<close>; the model returns
  its component.\<close>

definition fitness_function :: "real list \<Rightarrow> real list \<Rightarrow> error + pyfloat" where
  "fitness_function signal returns =
     (let equity = cumprod (map (\<lambda>r. 1 + r) (map2 (*) returns signal))
      in case iloc_last equity of
           Inl e \<Rightarrow> Inl e
         | Inr l \<Rightarrow>
             (let total_ret = l - 1;
                  mdd = max_drawdown (map2 (*) returns signal)
              in if total_ret < 0 then Inr (Fin (- 1000000000))
                 else if total_ret < 0.3 then Inr (Fin (- 1000 * total_ret))
                 else Inr (exact_sub (Fin total_ret) (exact_mul (Fin 0.3) mdd))))"



section \<open>strategy\_ga.py: the primitive library\<close>

text \<open>The four lambdas registered as \<open>add\<close>, \<open>sub\<close>, \<open>mul\<close> and \<open>div_safe\<close>.
  The test \<open>b != 0\<close> is true of \<open>NaN\<close> and of the infinities.\<close>

definition add :: "pyfloat \<Rightarrow> pyfloat \<Rightarrow> pyfloat" where
  "add a b = fadd a b"

definition sub :: "pyfloat \<Rightarrow> pyfloat \<Rightarrow> pyfloat" where
  "sub a b = fsub a b"

definition mul :: "pyfloat \<Rightarrow> pyfloat \<Rightarrow> pyfloat" where
  "mul a b = fmul a b"

definition div_safe :: "pyfloat \<Rightarrow> pyfloat \<Rightarrow> pyfloat" where
  "div_safe a b = (if b \<noteq> Fin 0 then fdiv a b else Fin 0)"

text \<open>\<open>abs\<close>, \<open>numpy.abs\<close>, \<open>numpy.tanh\<close> and \<open>numpy.sign\<close> on a scalar.\<close>

fun fabs :: "pyfloat \<Rightarrow> pyfloat" where
  "fabs (Fin x) = Fin \<bar>x\<bar>"
| "fabs PInf = PInf"
| "fabs MInf = PInf"
| "fabs NaN = NaN"

fun np_tanh :: "pyfloat \<Rightarrow> pyfloat" where
  "np_tanh (Fin x) = Fin (tanh x)"
| "np_tanh PInf = Fin 1"
| "np_tanh MInf = Fin (- 1)"
| "np_tanh NaN = NaN"

fun np_sign :: "pyfloat \<Rightarrow> pyfloat" where
  "np_sign (Fin x) = Fin (sgn x)"
| "np_sign PInf = Fin 1"
| "np_sign MInf = Fin (- 1)"
| "np_sign NaN = NaN"

text \<open>The functions of Python's \<open>math\<close> module raise ValueError outside their domain
  and pass \<open>NaN\<close> and \<open>+inf\<close> through. \<open>math.exp\<close> is only called on \<open>[-10, 10]\<close>,
  where it cannot overflow.\<close>

fun math_sqrt :: "pyfloat \<Rightarrow> error + pyfloat" where
  "math_sqrt (Fin x) = (if x < 0 then Inl ValueError else Inr (Fin (sqrt x)))"
| "math_sqrt PInf = Inr PInf"
| "math_sqrt MInf = Inl ValueError"
| "math_sqrt NaN = Inr NaN"

fun math_log1p :: "pyfloat \<Rightarrow> error + pyfloat" where
  "math_log1p (Fin x) = (if x \<le> - 1 then Inl ValueError else Inr (Fin (ln (1 + x))))"
| "math_log1p PInf = Inr PInf"
| "math_log1p MInf = Inl ValueError"
| "math_log1p NaN = Inr NaN"

fun math_exp :: "pyfloat \<Rightarrow> pyfloat" where
  "math_exp (Fin x) = Fin (exp x)"
| "math_exp PInf = PInf"
| "math_exp MInf = Fin 0"
| "math_exp NaN = NaN"

text \<open>Python's \<open>min(a, b)\<close> and \<open>max(a, b)\<close> keep the first argument unless the second
  compares strictly below (above) it.\<close>

definition py_min :: "pyfloat \<Rightarrow> pyfloat \<Rightarrow> pyfloat" where
  "py_min a b = (if flt b a then b else a)"

definition py_max :: "pyfloat \<Rightarrow> pyfloat \<Rightarrow> pyfloat" where
  "py_max a b = (if fgt b a then b else a)"

text \<open>Each protected primitive wraps its body in \<open>try ... except Exception\<close> and
  returns the fallback in the handler.\<close>

definition protected_log :: "pyfloat \<Rightarrow> pyfloat" where
  "protected_log x =
     (if fle x (Fin (- 0.999)) then Fin 0
      else case math_log1p x of Inl e \<Rightarrow> Fin 0 | Inr v \<Rightarrow> v)"

definition protected_div :: "pyfloat \<Rightarrow> pyfloat \<Rightarrow> pyfloat" where
  "protected_div x y = (if fgt (fabs y) (Fin 0.000001) then fdiv x y else Fin 0)"

definition protected_sqrt :: "pyfloat \<Rightarrow> pyfloat" where
  "protected_sqrt x = (case math_sqrt (fabs x) of Inl e \<Rightarrow> Fin 0 | Inr v \<Rightarrow> v)"

definition clip10 :: "pyfloat \<Rightarrow> pyfloat" where
  "clip10 x = py_max (Fin (- 10)) (py_min (Fin 10) x)"

text \<open>Python's float division raises ZeroDivisionError on a zero divisor; the handler
  of \<open>sigmoid_safe\<close> returns 0.5.\<close>

definition sigmoid_safe :: "pyfloat \<Rightarrow> pyfloat" where
  "sigmoid_safe x =
     (let d = fadd (Fin 1) (math_exp (fneg (clip10 x)))
      in if d = Fin 0 then Fin 0.5 else fdiv (Fin 1) d)"

datatype primitive = Unary "pyfloat \<Rightarrow> pyfloat" | Binary "pyfloat \<Rightarrow> pyfloat \<Rightarrow> pyfloat"

record pset =
  primitives :: "(string \<times> primitive) list"
  arguments :: "string list"
  ephemerals :: "string list"

definition make_primitives :: "string list \<Rightarrow> pset" where
  "make_primitives feature_names =
     \<lparr>primitives =
        [(''add'', Binary add), (''sub'', Binary sub), (''mul'', Binary mul),
         (''div_safe'', Binary div_safe), (''div_prot'', Binary protected_div),
         (''tanh'', Unary np_tanh), (''abs'', Unary fabs), (''sign'', Unary np_sign),
         (''sqrt_safe'', Unary protected_sqrt), (''clip10'', Unary clip10),
         (''sigmoid'', Unary sigmoid_safe), (''log1p_safe'', Unary protected_log)],
      arguments = feature_names,
      ephemerals = [''rand'']\<rparr>"

text \<open>A compiled tree calls a primitive with as many arguments as its registered
  arity; a call with another number of arguments is a TypeError.\<close>

fun arity :: "primitive \<Rightarrow> nat" where
  "arity (Unary f) = 1"
| "arity (Binary f) = 2"

fun apply_primitive :: "primitive \<Rightarrow> pyfloat list \<Rightarrow> error + pyfloat" where
  "apply_primitive (Unary f) [x] = Inr (f x)"
| "apply_primitive (Binary f) [x, y] = Inr (f x y)"
| "apply_primitive p args = Inl TypeError"

section \<open>strategy\_ga.py: the signal compiler\<close>

text \<open>\<open>numpy.clip\<close> with finite bounds keeps \<open>NaN\<close>; \<open>numpy.exp\<close> agrees with
  \<open>math_exp\<close> on the clipped range.\<close>

fun np_clip :: "pyfloat \<Rightarrow> real \<Rightarrow> real \<Rightarrow> pyfloat" where
  "np_clip (Fin x) lo hi = Fin (min (max x lo) hi)"
| "np_clip PInf lo hi = Fin hi"
| "np_clip MInf lo hi = Fin (min lo hi)"
| "np_clip NaN lo hi = NaN"

text \<open>
  \<open>compile_individual\<close> applied to a feature table: the closure \<open>signal\<close> it returns,
  called on \<open>X\<close>. \<open>gp_compile\<close> stands for DEAP's \<open>gp.compile\<close> with the primitive set
  fixed, so \<open>gp_compile ind\<close> is the callable \<open>func\<close>; the table \<open>X\<close> is given by the
  rows of \<open>X[feat_cols].values\<close>. The result is the value list of the returned series,
  which carries the index of \<open>X\<close>.
\<close>

definition compile_individual ::
  "('t \<Rightarrow> pyfloat list \<Rightarrow> pyfloat) \<Rightarrow> 't \<Rightarrow> pyfloat list list \<Rightarrow> real list" where
  "compile_individual gp_compile ind X =
     (let func = gp_compile ind;
          raw = map func X;
          prob = map (\<lambda>r. fdiv (Fin 1) (fadd (Fin 1) (math_exp (fneg (np_clip r (- 10) 10))))) raw;
          sig = map (\<lambda>p. if fgt p (Fin 0.55) then 1 else 0) prob
      in sig)"

section \<open>strategy\_ga.py: the evolutionary loop\<close>

text \<open>
  An individual is a DEAP primitive tree with its fitness attribute; \<open>None\<close> is the
  invalid fitness of a fresh or just varied individual (\<open>del ind.fitness.values\<close>).
\<close>

record 't individual =
  tree :: 't
  fitness :: "pyfloat option"

text \<open>
  The operators that \<open>evolve\<close> takes from the DEAP library and from Python's \<open>random\<close>
  module are parameters of the model. Every randomised operator reads and advances the
  state \<open>'g\<close> of the one process-wide generator of the \<open>random\<close> module.
  \<^item> \<open>gp_compile\<close>: \<open>gp.compile\<close> for the primitive set of \<open>make_primitives\<close>;
  \<^item> \<open>genFull\<close>: \<open>gp.genFull(pset, min_=1, max_=3)\<close>, one random tree;
  \<^item> \<open>selTournament\<close>: \<open>tools.selTournament(individuals, k, tournsize)\<close>;
  \<^item> \<open>cxOnePoint\<close>, \<open>mutUniform\<close>: the variation operators under their
    \<open>staticLimit(key=len, max_value=80)\<close> decorator;
  \<^item> \<open>random_random\<close>: \<open>random.random()\<close>; \<open>random_seed\<close>: the state after
    \<open>random.seed(n)\<close>;
  \<^item> \<open>hof_update\<close>: \<open>HallOfFame(10).update\<close>, from the archive and a population to
    the new archive, best first.
\<close>

record ('t, 'g) deap =
  gp_compile :: "'t \<Rightarrow> pyfloat list \<Rightarrow> pyfloat"
  genFull :: "'g \<Rightarrow> 't \<times> 'g"
  selTournament :: "'t individual list \<Rightarrow> nat \<Rightarrow> nat \<Rightarrow> 'g \<Rightarrow> 't individual list \<times> 'g"
  cxOnePoint :: "'t \<Rightarrow> 't \<Rightarrow> 'g \<Rightarrow> ('t \<times> 't) \<times> 'g"
  mutUniform :: "'t \<Rightarrow> 'g \<Rightarrow> 't \<times> 'g"
  random_random :: "'g \<Rightarrow> real \<times> 'g"
  random_seed :: "nat \<Rightarrow> 'g"
  hof_update :: "'t individual list \<Rightarrow> 't individual list \<Rightarrow> 't individual list"

text \<open>The toolbox that \<open>evolve\<close> registers.\<close>

record ('t, 'g) toolbox =
  population :: "nat \<Rightarrow> 'g \<Rightarrow> 't individual list \<times> 'g"
  compile :: "'t individual \<Rightarrow> pyfloat list list \<Rightarrow> real list"
  evaluate :: "'t individual \<Rightarrow> error + pyfloat"
  select :: "'t individual list \<Rightarrow> nat \<Rightarrow> 'g \<Rightarrow> 't individual list \<times> 'g"
  mate :: "'t individual \<Rightarrow> 't individual \<Rightarrow> 'g \<Rightarrow> ('t individual \<times> 't individual) \<times> 'g"
  mutate :: "'t individual \<Rightarrow> 'g \<Rightarrow> 't individual \<times> 'g"

text \<open>\<open>tools.initRepeat(list, func, n)\<close>: \<open>n\<close> calls of the generator, in order.\<close>

fun initRepeat :: "('g \<Rightarrow> 'a \<times> 'g) \<Rightarrow> nat \<Rightarrow> 'g \<Rightarrow> 'a list \<times> 'g" where
  "initRepeat f 0 g = ([], g)"
| "initRepeat f (Suc n) g =
     (let (x, g1) = f g; (xs, g2) = initRepeat f n g1 in (x # xs, g2))"

text \<open>
  DEAP's \<open>algorithms.varAnd(population, toolbox, cxpb, mutpb)\<close>: the offspring are
  clones of the population in its order; neighbours \<open>(0,1), (2,3), ...\<close> are mated with
  probability \<open>cxpb\<close>, then every offspring is mutated with probability \<open>mutpb\<close>, and
  a changed offspring loses its fitness. It calls \<open>toolbox.mate\<close> and
  \<open>toolbox.mutate\<close> and no other operator of the toolbox.
\<close>

fun varAnd_mate ::
  "('g \<Rightarrow> real \<times> 'g) \<Rightarrow> ('t, 'g) toolbox \<Rightarrow> real \<Rightarrow> 't individual list \<Rightarrow> 'g
     \<Rightarrow> 't individual list \<times> 'g" where
  "varAnd_mate rnd tb cxpb (a # b # rest) g =
     (let (u, g1) = rnd g
      in if u < cxpb then
           (let ((a', b'), g2) = mate tb a b g1;
                (rest', g3) = varAnd_mate rnd tb cxpb rest g2
            in (a'\<lparr>fitness := None\<rparr> # b'\<lparr>fitness := None\<rparr> # rest', g3))
         else
           (let (rest', g3) = varAnd_mate rnd tb cxpb rest g1
            in (a # b # rest', g3)))"
| "varAnd_mate rnd tb cxpb pop g = (pop, g)"

fun varAnd_mutate ::
  "('g \<Rightarrow> real \<times> 'g) \<Rightarrow> ('t, 'g) toolbox \<Rightarrow> real \<Rightarrow> 't individual list \<Rightarrow> 'g
     \<Rightarrow> 't individual list \<times> 'g" where
  "varAnd_mutate rnd tb mutpb [] g = ([], g)"
| "varAnd_mutate rnd tb mutpb (a # rest) g =
     (let (u, g1) = rnd g
      in if u < mutpb then
           (let (a', g2) = mutate tb a g1;
                (rest', g3) = varAnd_mutate rnd tb mutpb rest g2
            in (a'\<lparr>fitness := None\<rparr> # rest', g3))
         else
           (let (rest', g3) = varAnd_mutate rnd tb mutpb rest g1
            in (a # rest', g3)))"

definition varAnd ::
  "('g \<Rightarrow> real \<times> 'g) \<Rightarrow> 't individual list \<Rightarrow> ('t, 'g) toolbox \<Rightarrow> real \<Rightarrow> real \<Rightarrow> 'g
     \<Rightarrow> 't individual list \<times> 'g" where
  "varAnd rnd pop tb cxpb mutpb g =
     (let (offspring, g1) = varAnd_mate rnd tb cxpb pop g
      in varAnd_mutate rnd tb mutpb offspring g1)"

text \<open>\<open>list(map(toolbox.evaluate, pop))\<close>: the first exception ends the map.\<close>

fun map_evaluate :: "('a \<Rightarrow> error + 'b) \<Rightarrow> 'a list \<Rightarrow> error + 'b list" where
  "map_evaluate f [] = Inr []"
| "map_evaluate f (x # xs) =
     (case f x of
        Inl e \<Rightarrow> Inl e
      | Inr y \<Rightarrow> (case map_evaluate f xs of Inl e \<Rightarrow> Inl e | Inr ys \<Rightarrow> Inr (y # ys)))"

text \<open>\<open>numpy.max\<close> propagates \<open>NaN\<close> and raises ValueError on an empty input;
  \<open>numpy.mean\<close> is the sum over the count.\<close>

definition np_max2 :: "pyfloat \<Rightarrow> pyfloat \<Rightarrow> pyfloat" where
  "np_max2 a b = (if a = NaN \<or> b = NaN then NaN else if flt a b then b else a)"

definition np_max :: "pyfloat list \<Rightarrow> error + pyfloat" where
  "np_max xs = (case xs of [] \<Rightarrow> Inl ValueError | x # rest \<Rightarrow> Inr (foldl np_max2 x rest))"

definition np_mean :: "pyfloat list \<Rightarrow> pyfloat" where
  "np_mean xs = fdiv (foldl fadd (Fin 0) xs) (Fin (real (length xs)))"

text \<open>\<open>stats.compile(pop)\<close> with the key \<open>ind.fitness.values\<close> and the registered
  functions \<open>max\<close> and \<open>mean\<close>, in that order.\<close>

definition fitness_values :: "'t individual list \<Rightarrow> pyfloat list" where
  "fitness_values pop = concat (map (\<lambda>ind. case fitness ind of None \<Rightarrow> [] | Some f \<Rightarrow> [f]) pop)"

definition stats_compile :: "'t individual list \<Rightarrow> error + (pyfloat \<times> pyfloat)" where
  "stats_compile pop =
     (case np_max (fitness_values pop) of
        Inl e \<Rightarrow> Inl e
      | Inr mx \<Rightarrow> Inr (mx, np_mean (fitness_values pop)))"

text \<open>What \<open>evolve\<close> prints: one line per evaluated generation with its number and
  the two statistics, and the early-stop message.\<close>

datatype event = GenLine nat pyfloat pyfloat | EarlyStop

text \<open>The value tested by the early-stop check: the compounded return of the signal
  of \<open>best_ind\<close> on the validation split.\<close>

definition val_total_ret ::
  "('t, 'g) toolbox \<Rightarrow> pyfloat list list \<Rightarrow> real list \<Rightarrow> 't individual \<Rightarrow> error + real" where
  "val_total_ret tb val_X val_y best_ind = total_return (compile tb best_ind val_X) val_y"

text \<open>
  The loop \<open>for gen in range(200)\<close> with \<open>n\<close> generations left. The result is the
  printed output, the state of the generator, and the Hall of Fame or the exception
  that ended the call.
\<close>

fun evolve_loop ::
  "('t, 'g) deap \<Rightarrow> ('t, 'g) toolbox \<Rightarrow> pyfloat list list \<Rightarrow> real list \<Rightarrow> nat \<Rightarrow> nat
     \<Rightarrow> 't individual list \<Rightarrow> 't individual list \<Rightarrow> 'g \<Rightarrow> event list
     \<Rightarrow> event list \<times> 'g \<times> (error + 't individual list)" where
  "evolve_loop d tb val_X val_y 0 gen pop hof g out = (out, g, Inr hof)"
| "evolve_loop d tb val_X val_y (Suc n) gen pop hof g out =
     (let (pop1, g1) = varAnd (random_random d) pop tb 0.5 0.4 g
      in case map_evaluate (evaluate tb) pop1 of
           Inl e \<Rightarrow> (out, g1, Inl e)
         | Inr fits \<Rightarrow>
             (let pop2 = map2 (\<lambda>ind fit. ind\<lparr>fitness := Some fit\<rparr>) pop1 fits;
                  hof1 = hof_update d hof pop2
              in case stats_compile pop2 of
                   Inl e \<Rightarrow> (out, g1, Inl e)
                 | Inr (mx, mean) \<Rightarrow>
                     (let out1 = out @ [GenLine gen mx mean]
                      in case hof1 of
                           [] \<Rightarrow> (out1, g1, Inl IndexError)
                         | best_ind # others \<Rightarrow>
                             (case val_total_ret tb val_X val_y best_ind of
                                Inl e \<Rightarrow> (out1, g1, Inl e)
                              | Inr v \<Rightarrow>
                                  if 0.8 \<le> v then (out1 @ [EarlyStop], g1, Inr hof1)
                                  else evolve_loop d tb val_X val_y n (Suc gen) pop2 hof1 g1 out1))))"

definition make_toolbox ::
  "('t, 'g) deap \<Rightarrow> pyfloat list list \<Rightarrow> real list \<Rightarrow> ('t, 'g) toolbox" where
  "make_toolbox d train_X train_y =
     \<lparr>population = initRepeat (\<lambda>g. let (t, g1) = genFull d g in (\<lparr>tree = t, fitness = None\<rparr>, g1)),
      compile = (\<lambda>ind. compile_individual (gp_compile d) (tree ind)),
      evaluate = (\<lambda>ind. fitness_function (compile_individual (gp_compile d) (tree ind) train_X) train_y),
      select = (\<lambda>individuals k. selTournament d individuals k 5),
      mate = (\<lambda>a b g. let ((ta, tb), g1) = cxOnePoint d (tree a) (tree b) g
                       in ((a\<lparr>tree := ta\<rparr>, b\<lparr>tree := tb\<rparr>), g1)),
      mutate = (\<lambda>a g. let (ta, g1) = mutUniform d (tree a) g in (a\<lparr>tree := ta\<rparr>, g1))\<rparr>"

text \<open>\<open>evolve(train_X, train_y, val_X, val_y)\<close>, called when the generator is in state
  \<open>g\<close>. Of the returned triple only the Hall of Fame is kept; the primitive set and
  the column names do not depend on the run.\<close>

definition evolve ::
  "('t, 'g) deap \<Rightarrow> pyfloat list list \<Rightarrow> real list \<Rightarrow> pyfloat list list \<Rightarrow> real list \<Rightarrow> 'g
     \<Rightarrow> event list \<times> 'g \<times> (error + 't individual list)" where
  "evolve d train_X train_y val_X val_y g =
     (let tb = make_toolbox d train_X train_y;
          (pop, g1) = population tb 400 g;
          hof = []
      in evolve_loop d tb val_X val_y 200 0 pop hof g1 [])"


text \<open>
  A small instance of the operators, used to run the loop on concrete data: a tree is
  a number \<open>t\<close> and denotes the expression \<open>t * X0\<close>, the generator state counts the
  draws, and every draw of \<open>random.random()\<close> is 0.9, above both variation
  probabilities.
\<close>

definition example_deap :: "(nat, nat) deap" where
  "example_deap =
     \<lparr>gp_compile = (\<lambda>t row. case row of [] \<Rightarrow> NaN | x # xs \<Rightarrow> fmul (Fin (real t)) x),
      genFull = (\<lambda>g. (1, Suc g)),
      selTournament = (\<lambda>individuals k tournsize g. (take k individuals, g + k * tournsize)),
      cxOnePoint = (\<lambda>a b g. ((b, a), Suc g)),
      mutUniform = (\<lambda>t g. (Suc t, Suc g)),
      random_random = (\<lambda>g. (0.9, Suc g)),
      random_seed = (\<lambda>n. n),
      hof_update = (\<lambda>hof pop. take 10 (hof @ pop))\<rparr>"


section \<open>The failure floor\<close>

lemma fitness_function_total_return:
  "fitness_function signal returns =
     (case total_return signal returns of
        Inl e \<Rightarrow> Inl e
      | Inr t \<Rightarrow>
          if t < 0 then Inr (Fin (- 1000000000))
          else if t < 0.3 then Inr (Fin (- 1000 * t))
          else Inr (exact_sub (Fin t) (exact_mul (Fin 0.3) (max_drawdown (map2 (*) returns signal)))))"
  by (simp add: fitness_function_def total_return_def Let_def split: sum.splits)

text \<open>
  Claim C3. For a non-empty signal/target pair whose total compounded return is
  strictly negative, \<open>fitness_function\<close> returns exactly the floor \<open>-1e9\<close>, whatever
  the size of the loss and whatever the drawdown.
\<close>

theorem fitness_negative_return_floor:
  assumes "total_return signal returns = Inr t" and "t < 0"
  shows "fitness_function signal returns = Inr (Fin (- 1000000000))"
  using assms by (simp add: fitness_function_total_return)

theorem fitness_negative_return_floor_witness:
  "total_return [1, 1] [0.1, - 0.5] = Inr (- 0.45) \<and> (- 0.45 :: real) < 0
   \<and> fitness_function [1, 1] [0.1, - 0.5] = Inr (Fin (- 1000000000))"
proof -
  have t: "total_return [1, 1] [0.1, - 0.5] = Inr (- 0.45)"
    by (simp add: total_return_def cumprod_def iloc_last_def)
  have neg: "(- 0.45 :: real) < 0" by simp
  show ?thesis using t neg fitness_negative_return_floor [OF t neg] by simp
qed

section \<open>The drawdown series\<close>



lemma cumprod_from_eq_Nil [simp]: "cumprod_from a xs = [] \<longleftrightarrow> xs = []"
  by (cases xs) auto

lemma length_cumprod_from [simp]: "length (cumprod_from a xs) = length xs"
  by (induction xs arbitrary: a) auto

lemma length_cummax_from [simp]: "length (cummax_from m xs) = length xs"
  by (induction xs arbitrary: m) auto

lemma length_cummax [simp]: "length (cummax xs) = length xs"
  by (cases xs) auto











section \<open>The sign of the drawdown\<close>






section \<open>The sub-threshold tier\<close>

lemma fitness_subthreshold:
  assumes "total_return signal returns = Inr t" and "0 \<le> t" and "t < 0.3"
  shows "fitness_function signal returns = Inr (Fin (- 1000 * t))"
  using assms by (simp add: fitness_function_total_return)

text \<open>
  Claim C1, evaluated on two candidates of the tier \<open>[0, 0.30)\<close>. A signal that is
  always long on the single return 0.1 has total return 0.1 and fitness \<open>-100\<close>; on the
  single return 0.2 it has total return 0.2 and fitness \<open>-200\<close>. The higher return
  has the lower fitness: the tier computes \<open>-1000 * total_ret\<close>.
\<close>

theorem subthreshold_fitness_decreases:
  "total_return [1] [0.1] = Inr 0.1 \<and> total_return [1] [0.2] = Inr 0.2
   \<and> fitness_function [1] [0.1] = Inr (Fin (- 100))
   \<and> fitness_function [1] [0.2] = Inr (Fin (- 200))"
  by (simp add: fitness_function_total_return total_return_def cumprod_def iloc_last_def)

section \<open>The drawdown-penalised tier\<close>

text \<open>
  Claim C2, evaluated on two candidates with the same total return 0.5. The first has
  no drawdown and fitness 0.5; the second falls by a quarter from its peak
  (\<open>max_drawdown = -0.25\<close>) and has fitness 0.575. The larger peak-to-trough decline
  has the higher fitness: \<open>max_drawdown\<close> is non-positive and the score subtracts
  0.3 times it.
\<close>

theorem deeper_drawdown_scores_higher:
  "total_return [1] [0.5] = Inr 0.5 \<and> max_drawdown (map2 (*) [0.5] [1]) = Fin 0
   \<and> fitness_function [1] [0.5] = Inr (Fin 0.5)
   \<and> total_return [1, 1] [1, - 0.25] = Inr 0.5
   \<and> max_drawdown (map2 (*) [1, - 0.25] [1, 1]) = Fin (- 0.25)
   \<and> fitness_function [1, 1] [1, - 0.25] = Inr (Fin 0.575)"
  by (simp add: fitness_function_total_return total_return_def cumprod_def iloc_last_def
      max_drawdown_def equity_curve_def series_min_def exact_sub_def)

section \<open>Overflow\<close>

lemma overflow_threshold_large: "60000 < overflow_threshold"
  by (simp add: overflow_threshold_def)

lemma overflow_small [simp]: "\<bar>r\<bar> \<le> 60000 \<Longrightarrow> overflow r = Fin r"
  using overflow_threshold_large by (auto simp: overflow_def)

lemma is_finite_overflow: "is_finite (overflow r) \<longleftrightarrow> \<bar>r\<bar> < overflow_threshold"
  by (auto simp: overflow_def)

lemma overflow_not_NaN: "overflow r \<noteq> NaN"
  by (simp add: overflow_def)

lemma exp_minus_bound:
  assumes "- 10 \<le> (c::real)"
  shows "exp (- c) \<le> 59049"
proof -
  have "exp (- c) \<le> exp (10::real)" using assms by simp
  also have "exp (10::real) = exp 1 ^ 10"
    using exp_of_nat_mult [of 10 "1::real"] by simp
  also have "\<dots> \<le> (3::real) ^ 10"
    by (rule power_mono) (simp_all add: exp_le)
  finally show ?thesis by simp
qed

lemma overflow_logistic_denominator:
  assumes "- 10 \<le> c"
  shows "overflow (1 + exp (- c)) = Fin (1 + exp (- c))"
proof -
  define q where "q = exp (- c)"
  have "q \<le> 59049" unfolding q_def using assms by (rule exp_minus_bound)
  moreover have "0 < q" unfolding q_def by simp
  ultimately have "\<bar>1 + q\<bar> \<le> 60000" by simp
  then have "overflow (1 + q) = Fin (1 + q)" by (rule overflow_small)
  then show ?thesis unfolding q_def .
qed

lemma overflow_logistic:
  assumes "0 < e"
  shows "overflow (1 / (1 + e)) = Fin (1 / (1 + e))"
proof -
  define q where "q = 1 / (1 + e)"
  have "0 < q" unfolding q_def using assms by simp
  moreover have "q < 1" unfolding q_def using assms by (simp add: field_simps)
  ultimately have "\<bar>q\<bar> \<le> 60000" by simp
  then have "overflow q = Fin q" by (rule overflow_small)
  then show ?thesis unfolding q_def .
qed

section \<open>The primitive library on finite and non-finite inputs\<close>

lemma clip10_range: "\<exists>v. clip10 x = Fin v \<and> - 10 \<le> v \<and> v \<le> 10"
  by (cases x) (auto simp: clip10_def py_min_def py_max_def fgt_def)

lemma sigmoid_safe_finite: "\<exists>v. sigmoid_safe x = Fin v \<and> 0 < v \<and> v < 1"
proof -
  obtain c where c: "clip10 x = Fin c" "- 10 \<le> c" using clip10_range by blast
  have e: "0 < exp (- c)" by simp
  then have pos: "0 < 1 + exp (- c)" by (simp add: add_pos_pos)
  from pos have gt: "0 < 1 / (1 + exp (- c))" by simp
  from e pos have lt: "1 / (1 + exp (- c)) < 1" by (simp add: field_simps)
  have d: "fadd (Fin 1) (math_exp (fneg (clip10 x))) = Fin (1 + exp (- c))"
    using c by (simp add: overflow_logistic_denominator)
  have nz: "Fin (1 + exp (- c)) \<noteq> Fin 0" using pos by simp
  have ne: "1 + exp (- c) \<noteq> 0" using pos by linarith
  have q: "fdiv (Fin 1) (Fin (1 + exp (- c))) = Fin (1 / (1 + exp (- c)))"
    by (simp only: fdiv.simps ne if_False overflow_logistic [OF e])
  have "sigmoid_safe x = Fin (1 / (1 + exp (- c)))"
    unfolding sigmoid_safe_def Let_def d using nz q by (simp only: if_False)
  with gt lt show ?thesis by blast
qed

lemma protected_log_finite: "\<exists>v. protected_log (Fin x) = Fin v"
  by (auto simp: protected_log_def)

lemma protected_sqrt_finite: "\<exists>v. protected_sqrt (Fin x) = Fin v"
  by (auto simp: protected_sqrt_def)

lemma unary_primitive_finite:
  assumes "(name, Unary f) \<in> set (primitives (make_primitives feature_names))"
  shows "\<exists>v. f (Fin x) = Fin v"
proof -
  from assms have
    "f \<in> {np_tanh, fabs, np_sign, protected_sqrt, clip10, sigmoid_safe, protected_log}"
    by (auto simp: make_primitives_def)
  then show ?thesis
    using protected_log_finite [of x] protected_sqrt_finite [of x]
      clip10_range [of "Fin x"] sigmoid_safe_finite [of "Fin x"]
    by auto
qed

lemma add_finite: "add (Fin x) (Fin y) = overflow (x + y)"
  by (simp add: add_def)

lemma sub_finite: "sub (Fin x) (Fin y) = overflow (x - y)"
  by (simp add: sub_def fsub_def)

lemma mul_finite: "mul (Fin x) (Fin y) = overflow (x * y)"
  by (simp add: mul_def)

lemma div_safe_finite: "div_safe (Fin x) (Fin y) = (if y = 0 then Fin 0 else overflow (x / y))"
  by (simp add: div_safe_def)

lemma protected_div_finite:
  "protected_div (Fin x) (Fin y) = (if \<bar>y\<bar> \<le> 0.000001 then Fin 0 else overflow (x / y))"
  by (auto simp: protected_div_def fgt_def)

lemma binary_primitive_not_NaN:
  assumes "(name, Binary h) \<in> set (primitives (make_primitives feature_names))"
  shows "h (Fin x) (Fin y) \<noteq> NaN"
proof -
  from assms have "h \<in> {add, sub, mul, div_safe, protected_div}"
    by (auto simp: make_primitives_def)
  then show ?thesis
    by (auto simp: add_finite sub_finite mul_finite div_safe_finite protected_div_finite
        overflow_not_NaN split: if_splits)
qed

lemma apply_primitive_returns:
  "length args = arity p \<Longrightarrow> \<exists>v. apply_primitive p args = Inr v"
  by (cases p; cases args; cases "tl args"; cases "tl (tl args)") auto

text \<open>
  Claim C4, as amended. No registered primitive raises, on any arguments. \<open>clip10\<close>
  returns a value of \<open>[-10, 10]\<close> and \<open>sigmoid\<close> a finite value on every argument,
  finite or not. On finite arguments the unary primitives return a finite value; the
  binary primitives never return \<open>NaN\<close> there, and return a finite value exactly when
  the exact sum, difference, product or quotient is below the overflow threshold of
  doubles (or, for the two divisions, when the guard on the divisor returns 0.0).
\<close>

theorem primitives_total_amended:
  "((name, p) \<in> set (primitives (make_primitives feature_names)) \<and> length args = arity p
      \<longrightarrow> (\<exists>v. apply_primitive p args = Inr v))
   \<and> (\<exists>v. apply_primitive (Unary clip10) [a] = Inr (Fin v) \<and> - 10 \<le> v \<and> v \<le> 10)
   \<and> (\<exists>v. apply_primitive (Unary sigmoid_safe) [a] = Inr (Fin v))
   \<and> ((name1, Unary f) \<in> set (primitives (make_primitives feature_names))
      \<longrightarrow> (\<exists>v. apply_primitive (Unary f) [Fin x] = Inr (Fin v)))
   \<and> ((name2, Binary h) \<in> set (primitives (make_primitives feature_names))
      \<longrightarrow> apply_primitive (Binary h) [Fin x, Fin y] \<noteq> Inr NaN)
   \<and> (is_finite (add (Fin x) (Fin y)) \<longleftrightarrow> \<bar>x + y\<bar> < overflow_threshold)
   \<and> (is_finite (sub (Fin x) (Fin y)) \<longleftrightarrow> \<bar>x - y\<bar> < overflow_threshold)
   \<and> (is_finite (mul (Fin x) (Fin y)) \<longleftrightarrow> \<bar>x * y\<bar> < overflow_threshold)
   \<and> (is_finite (div_safe (Fin x) (Fin y)) \<longleftrightarrow> y = 0 \<or> \<bar>x / y\<bar> < overflow_threshold)
   \<and> (is_finite (protected_div (Fin x) (Fin y))
        \<longleftrightarrow> \<bar>y\<bar> \<le> 0.000001 \<or> \<bar>x / y\<bar> < overflow_threshold)"
proof (intro conjI impI)
  assume "(name, p) \<in> set (primitives (make_primitives feature_names)) \<and> length args = arity p"
  then show "\<exists>v. apply_primitive p args = Inr v"
    by (simp add: apply_primitive_returns)
next
  show "\<exists>v. apply_primitive (Unary clip10) [a] = Inr (Fin v) \<and> - 10 \<le> v \<and> v \<le> 10"
    using clip10_range [of a] by simp
next
  show "\<exists>v. apply_primitive (Unary sigmoid_safe) [a] = Inr (Fin v)"
    using sigmoid_safe_finite [of a] by auto
next
  assume "(name1, Unary f) \<in> set (primitives (make_primitives feature_names))"
  then show "\<exists>v. apply_primitive (Unary f) [Fin x] = Inr (Fin v)"
    using unary_primitive_finite [of name1 f feature_names x] by simp
next
  assume "(name2, Binary h) \<in> set (primitives (make_primitives feature_names))"
  then show "apply_primitive (Binary h) [Fin x, Fin y] \<noteq> Inr NaN"
    using binary_primitive_not_NaN [of name2 h feature_names x y] by simp
next
  show "is_finite (add (Fin x) (Fin y)) \<longleftrightarrow> \<bar>x + y\<bar> < overflow_threshold"
    by (simp add: add_finite is_finite_overflow)
next
  show "is_finite (sub (Fin x) (Fin y)) \<longleftrightarrow> \<bar>x - y\<bar> < overflow_threshold"
    by (simp add: sub_finite is_finite_overflow)
next
  show "is_finite (mul (Fin x) (Fin y)) \<longleftrightarrow> \<bar>x * y\<bar> < overflow_threshold"
    by (simp add: mul_finite is_finite_overflow)
next
  show "is_finite (div_safe (Fin x) (Fin y)) \<longleftrightarrow> y = 0 \<or> \<bar>x / y\<bar> < overflow_threshold"
    by (simp add: div_safe_finite is_finite_overflow)
next
  show "is_finite (protected_div (Fin x) (Fin y))
        \<longleftrightarrow> \<bar>y\<bar> \<le> 0.000001 \<or> \<bar>x / y\<bar> < overflow_threshold"
    by (simp add: protected_div_finite is_finite_overflow)
qed

theorem primitives_total_amended_witness:
  "(''div_prot'', Binary protected_div) \<in> set (primitives (make_primitives [''f0'']))
   \<and> length [PInf, NaN] = arity (Binary protected_div)
   \<and> apply_primitive (Binary protected_div) [PInf, NaN] = Inr (Fin 0)
   \<and> apply_primitive (Unary clip10) [NaN] = Inr (Fin 10)
   \<and> (''abs'', Unary fabs) \<in> set (primitives (make_primitives [''f0'']))
   \<and> apply_primitive (Unary fabs) [Fin 2] = Inr (Fin 2)
   \<and> (''mul'', Binary mul) \<in> set (primitives (make_primitives [''f0'']))
   \<and> apply_primitive (Binary mul) [Fin 2, Fin 3] = Inr (Fin 6)
   \<and> is_finite (mul (Fin 2) (Fin 3)) \<and> \<bar>2 * 3 :: real\<bar> < overflow_threshold"
  using primitives_total_amended
    [of "''div_prot''" "Binary protected_div" "[''f0'']" "[PInf, NaN]" NaN
        "''abs''" fabs 2 "''mul''" mul 3]
    overflow_threshold_large
  by (simp add: make_primitives_def protected_div_def fgt_def clip10_def py_min_def py_max_def
      mul_finite)

text \<open>
  Claim C4 as stated fails for the registered primitives \<open>add\<close> and \<open>mul\<close>, the
  lambdas \<open>a + b\<close> and \<open>a * b\<close>: on \<open>+inf\<close> and \<open>0.0\<close> the sum is \<open>+inf\<close>, and on
  the finite arguments \<open>2^600\<close> and \<open>2^600\<close> the product overflows to \<open>+inf\<close>.
\<close>

theorem primitives_infinite_counterexample:
  "(''add'', Binary add) \<in> set (primitives (make_primitives []))
   \<and> apply_primitive (Binary add) [PInf, Fin 0] = Inr PInf
   \<and> (''mul'', Binary mul) \<in> set (primitives (make_primitives []))
   \<and> apply_primitive (Binary mul) [Fin (2 ^ 600), Fin (2 ^ 600)] = Inr PInf
   \<and> \<not> is_finite PInf"
  by (simp add: make_primitives_def add_def mul_def overflow_def overflow_threshold_def)

section \<open>The compiled signal\<close>

lemma logistic_ten:
  "1 + exp (- 10 :: real) \<noteq> 0" "(11 / 20 :: real) < 1 / (1 + exp (- 10))"
proof -
  have "(1 :: real) + 10 \<le> exp 10" by (rule exp_ge_add_one_self)
  then have le: "exp (- 10 :: real) \<le> 1 / 11"
    by (simp add: exp_minus field_simps)
  have pos: "0 < 1 + exp (- 10 :: real)" by (simp add: add_pos_pos)
  then show "1 + exp (- 10 :: real) \<noteq> 0" by simp
  from le pos show "(11 / 20 :: real) < 1 / (1 + exp (- 10))"
    by (simp add: field_simps)
qed

lemma logistic_ten_float:
  "fdiv (Fin 1) (fadd (Fin 1) (Fin (exp (- 10)))) = Fin (1 / (1 + exp (- 10)))"
  using logistic_ten(1) overflow_logistic_denominator [of 10] overflow_logistic [of "exp (- 10)"]
  by simp

lemma length_compile_individual: "length (compile_individual gpc ind X) = length X"
  by (simp add: compile_individual_def)

lemma compile_individual_values:
  "v \<in> set (compile_individual gpc ind X) \<Longrightarrow> v = 0 \<or> v = 1"
  by (auto simp: compile_individual_def)

text \<open>
  Claim C5. For every individual and feature table the signal has one entry per row,
  every entry is 0.0 or 1.0, and it is a function of the individual and the table alone:
  the closure reads nothing else, in particular not the state of the random generator.
\<close>

theorem compile_individual_binary_series:
  "length (compile_individual gpc ind X) = length X
   \<and> (\<forall>v \<in> set (compile_individual gpc ind X). v = 0 \<or> v = 1)
   \<and> (\<forall>ind' X'. ind' = ind \<and> X' = X \<longrightarrow>
        compile_individual gpc ind' X' = compile_individual gpc ind X)"
  by (simp add: length_compile_individual compile_individual_values)

theorem compile_individual_binary_series_witness:
  "compile_individual (\<lambda>(t::nat) row. case row of [] \<Rightarrow> Fin 0 | x # xs \<Rightarrow> x) 0 [[PInf], [NaN], [Fin 0]]
     = [1, 0, 0]
   \<and> length (compile_individual (\<lambda>(t::nat) row. case row of [] \<Rightarrow> Fin 0 | x # xs \<Rightarrow> x) 0
        [[PInf], [NaN], [Fin 0]]) = length [[PInf], [NaN], [Fin 0]]"
  using compile_individual_binary_series
    [of "\<lambda>(t::nat) row. case row of [] \<Rightarrow> Fin 0 | x # xs \<Rightarrow> x" 0 "[[PInf], [NaN], [Fin 0]]"]
    logistic_ten logistic_ten_float
  by (simp add: compile_individual_def fgt_def)

section \<open>One generation of the loop\<close>

text \<open>Building and varying a population keeps its size; evaluation succeeds on a
  non-empty training split and raises IndexError on an empty one.\<close>

lemma length_initRepeat: "initRepeat f n g = (xs, g') \<Longrightarrow> length xs = n"
  by (induction n arbitrary: g xs g') (auto simp: Let_def split: prod.splits)

lemma length_varAnd_mate:
  "varAnd_mate rnd tb cxpb pop g = (pop', g') \<Longrightarrow> length pop' = length pop"
  by (induction pop arbitrary: g pop' g' rule: induct_list012)
     (auto simp: Let_def split: prod.splits if_splits)

lemma length_varAnd_mutate:
  "varAnd_mutate rnd tb mutpb pop g = (pop', g') \<Longrightarrow> length pop' = length pop"
  by (induction pop arbitrary: g pop' g')
     (auto simp: Let_def split: prod.splits if_splits)

lemma length_varAnd:
  "varAnd rnd pop tb cxpb mutpb g = (pop', g') \<Longrightarrow> length pop' = length pop"
  by (auto simp: varAnd_def split: prod.splits
      dest!: length_varAnd_mate length_varAnd_mutate)

lemma map_evaluate_ok:
  "\<forall>x \<in> set xs. \<exists>y. f x = Inr y \<Longrightarrow> \<exists>ys. map_evaluate f xs = Inr ys \<and> length ys = length xs"
  by (induction xs) (auto split: sum.splits)

lemma map_evaluate_fail:
  "xs \<noteq> [] \<Longrightarrow> \<forall>x \<in> set xs. f x = Inl e \<Longrightarrow> map_evaluate f xs = Inl e"
  by (cases xs) auto

lemma fitness_function_empty_training:
  "fitness_function (compile_individual gpc t []) [] = Inl IndexError"
  by (simp add: fitness_function_def compile_individual_def cumprod_def iloc_last_def)

lemma fitness_function_returns:
  assumes "signal \<noteq> []" and "returns \<noteq> []"
  shows "\<exists>f. fitness_function signal returns = Inr f"
proof -
  from assms have "map2 (*) returns signal \<noteq> []"
    by (cases signal; cases returns) auto
  then show ?thesis
    by (simp add: fitness_function_def cumprod_def iloc_last_def Let_def)
qed

lemma fitness_values_assigned:
  "length fits = length pop \<Longrightarrow>
   fitness_values (map2 (\<lambda>ind fit. ind\<lparr>fitness := Some fit\<rparr>) pop fits) = fits"
  by (induction pop fits rule: list_induct2') (auto simp: fitness_values_def)

lemma stats_compile_ok:
  assumes "length fits = length pop" and "pop \<noteq> []"
  shows "\<exists>mx mean. stats_compile (map2 (\<lambda>ind fit. ind\<lparr>fitness := Some fit\<rparr>) pop fits) = Inr (mx, mean)"
proof -
  from assms have "fits \<noteq> []" by auto
  then show ?thesis
    using assms(1) by (cases fits) (auto simp: stats_compile_def fitness_values_assigned np_max_def)
qed

lemma total_return_empty: "total_return (compile_individual gpc t []) [] = Inl IndexError"
  by (simp add: total_return_def compile_individual_def cumprod_def iloc_last_def)

section \<open>The loop on the example operators\<close>

lemma example_population:
  "population (make_toolbox example_deap train_X train_y) n g
     = (replicate n \<lparr>tree = 1, fitness = None\<rparr>, g + n)"
proof -
  have "initRepeat (\<lambda>g. (\<lparr>tree = 1::nat, fitness = None\<rparr>, Suc g)) n g
          = (replicate n \<lparr>tree = 1, fitness = None\<rparr>, g + n)"
    by (induction n arbitrary: g) simp_all
  then show ?thesis by (simp add: make_toolbox_def example_deap_def)
qed

lemma example_varAnd_mate:
  "cxpb \<le> 9 / 10 \<Longrightarrow>
   varAnd_mate (random_random example_deap) tb cxpb pop g = (pop, g + length pop div 2)"
  by (induction pop arbitrary: g rule: induct_list012) (simp_all add: example_deap_def)

lemma example_varAnd_mutate:
  "mutpb \<le> 9 / 10 \<Longrightarrow>
   varAnd_mutate (random_random example_deap) tb mutpb pop g = (pop, g + length pop)"
  by (induction pop arbitrary: g) (simp_all add: example_deap_def)

lemma example_varAnd:
  "cxpb \<le> 9 / 10 \<Longrightarrow> mutpb \<le> 9 / 10 \<Longrightarrow>
   varAnd (random_random example_deap) pop tb cxpb mutpb g
     = (pop, g + length pop div 2 + length pop)"
  by (simp add: varAnd_def example_varAnd_mate example_varAnd_mutate)

lemma map_evaluate_replicate:
  "f a = Inr y \<Longrightarrow> map_evaluate f (replicate n a) = Inr (replicate n y)"
  by (induction n) simp_all

lemma fitness_values_replicate:
  "fitness_values (replicate n \<lparr>tree = t, fitness = Some f\<rparr>) = replicate n f"
  by (induction n) (simp_all add: fitness_values_def)

lemma np_max2_idem: "np_max2 x x = x"
  by (simp add: np_max2_def)

lemma foldl_np_max2_replicate: "foldl np_max2 x (replicate n x) = x"
  by (induction n) (simp_all add: np_max2_idem)

lemma foldl_fadd_zero_replicate: "foldl fadd (Fin 0) (replicate n (Fin 0)) = Fin 0"
  by (induction n) simp_all

lemma stats_compile_replicate_zero:
  assumes "0 < n"
  shows "stats_compile (replicate n \<lparr>tree = t, fitness = Some (Fin 0)\<rparr>) = Inr (Fin 0, Fin 0)"
proof -
  from assms obtain k where n: "n = Suc k" by (cases n) auto
  have "foldl np_max2 (Fin 0) (replicate k (Fin 0)) = Fin 0"
    by (rule foldl_np_max2_replicate)
  then have mx: "np_max (replicate n (Fin 0)) = Inr (Fin 0)"
    by (simp add: n np_max_def)
  have "foldl fadd (Fin 0) (replicate n (Fin 0)) = Fin 0"
    by (rule foldl_fadd_zero_replicate)
  then have mean: "np_mean (replicate n (Fin 0)) = Fin 0"
    unfolding np_mean_def by (simp add: n)
  show ?thesis
    by (simp add: stats_compile_def fitness_values_replicate mx mean)
qed

lemma example_evaluate_flat:
  "evaluate (make_toolbox example_deap [[Fin 0]] [0.5]) \<lparr>tree = 1, fitness = None\<rparr> = Inr (Fin 0)"
  by (simp add: make_toolbox_def example_deap_def compile_individual_def fgt_def
      fitness_function_def cumprod_def iloc_last_def)



section \<open>Selection\<close>

lemma varAnd_mate_ignores_select:
  "varAnd_mate rnd (tb\<lparr>select := s\<rparr>) cxpb pop g = varAnd_mate rnd tb cxpb pop g"
  by (induction pop arbitrary: g rule: induct_list012)
     (simp_all add: Let_def split: prod.splits)

lemma varAnd_mutate_ignores_select:
  "varAnd_mutate rnd (tb\<lparr>select := s\<rparr>) mutpb pop g = varAnd_mutate rnd tb mutpb pop g"
  by (induction pop arbitrary: g) (simp_all add: Let_def split: prod.splits)

lemma varAnd_ignores_select:
  "varAnd rnd pop (tb\<lparr>select := s\<rparr>) cxpb mutpb g = varAnd rnd pop tb cxpb mutpb g"
  by (simp add: varAnd_def varAnd_mate_ignores_select varAnd_mutate_ignores_select)

lemma evolve_loop_ignores_select:
  "evolve_loop d (tb\<lparr>select := s\<rparr>) val_X val_y n gen pop hof g out
     = evolve_loop d tb val_X val_y n gen pop hof g out"
proof (induction n arbitrary: gen pop hof g out)
  case 0
  show ?case by simp
next
  case (Suc n)
  show ?case
    by (simp add: varAnd_ignores_select val_total_ret_def Suc.IH Let_def
        split: prod.splits sum.splits list.splits)
qed

lemma evolve_loop_ignores_selTournament:
  "evolve_loop (d\<lparr>selTournament := s\<rparr>) tb val_X val_y n gen pop hof g out
     = evolve_loop d tb val_X val_y n gen pop hof g out"
proof (induction n arbitrary: gen pop hof g out)
  case 0
  show ?case by simp
next
  case (Suc n)
  show ?case
    by (simp add: Suc.IH Let_def split: prod.splits sum.splits list.splits)
qed

lemma make_toolbox_selTournament:
  "make_toolbox (d\<lparr>selTournament := s\<rparr>) train_X train_y
     = (make_toolbox d train_X train_y)\<lparr>select := (\<lambda>individuals k. s individuals k 5)\<rparr>"
  by (simp add: make_toolbox_def)

text \<open>
  Claim C6. \<open>evolve\<close> registers tournament selection of size 5 as \<open>toolbox.select\<close>,
  but the loop passes the whole population to \<open>varAnd\<close> and never calls the registered
  operator: replacing \<open>tools.selTournament\<close> by any function \<open>s\<close> leaves the printed
  output, the generator state and the Hall of Fame of every run unchanged. The parents
  of a generation are all individuals of the previous one, in their order.
\<close>

theorem evolve_never_selects:
  "select (make_toolbox d train_X train_y) individuals k = selTournament d individuals k 5
   \<and> evolve (d\<lparr>selTournament := s\<rparr>) train_X train_y val_X val_y g
       = evolve d train_X train_y val_X val_y g"
proof
  show "select (make_toolbox d train_X train_y) individuals k = selTournament d individuals k 5"
    by (simp add: make_toolbox_def)
next
  have "population (make_toolbox (d\<lparr>selTournament := s\<rparr>) train_X train_y)
          = population (make_toolbox d train_X train_y)"
    by (simp add: make_toolbox_def)
  then show "evolve (d\<lparr>selTournament := s\<rparr>) train_X train_y val_X val_y g
       = evolve d train_X train_y val_X val_y g"
    by (simp add: evolve_def make_toolbox_selTournament evolve_loop_ignores_selTournament
        evolve_loop_ignores_select split: prod.splits)
qed

section \<open>Early stopping\<close>



section \<open>Inputs that break the caller contract\<close>

lemma evolve_loop_evaluate_raises:
  assumes "varAnd (random_random d) pop tb 0.5 0.4 g = (pop1, g1)"
      and "map_evaluate (evaluate tb) pop1 = Inl e"
  shows "evolve_loop d tb val_X val_y (Suc n) gen pop hof g out = (out, g1, Inl e)"
  using assms by simp

lemma evolve_loop_empty_validation:
  assumes "varAnd (random_random d) pop tb 0.5 0.4 g = (pop1, g1)"
      and "map_evaluate (evaluate tb) pop1 = Inr fits"
      and "stats_compile (map2 (\<lambda>ind fit. ind\<lparr>fitness := Some fit\<rparr>) pop1 fits) = Inr (mx, mean)"
      and "\<And>b. total_return (compile tb b val_X) val_y = Inl IndexError"
  shows "evolve_loop d tb val_X val_y (Suc n) gen pop hof g out
           = (out @ [GenLine gen mx mean], g1, Inl IndexError)"
  using assms by (simp add: val_total_ret_def Let_def split: list.splits)

lemma population_length:
  "population (make_toolbox d train_X train_y) n g = (pop, g1) \<Longrightarrow> length pop = n"
  by (simp add: make_toolbox_def length_initRepeat)

lemma evolve_empty_training:
  "\<exists>g1. evolve d [] [] val_X val_y g = ([], g1, Inl IndexError)"
proof -
  let ?tb = "make_toolbox d [] []"
  obtain pop g0 where pop: "population ?tb 400 g = (pop, g0)" by (cases "population ?tb 400 g")
  obtain pop1 g1 where var: "varAnd (random_random d) pop ?tb 0.5 0.4 g0 = (pop1, g1)"
    by (cases "varAnd (random_random d) pop ?tb 0.5 0.4 g0")
  have "length pop1 = 400"
    using population_length [OF pop] length_varAnd [OF var] by simp
  then have ne: "pop1 \<noteq> []" by auto
  have "\<forall>x \<in> set pop1. evaluate ?tb x = Inl IndexError"
    by (simp add: make_toolbox_def fitness_function_empty_training)
  with ne have "map_evaluate (evaluate ?tb) pop1 = Inl IndexError"
    by (rule map_evaluate_fail)
  from evolve_loop_evaluate_raises [OF var this, of val_X val_y 199 0 "[]" "[]"]
  have "evolve_loop d ?tb val_X val_y 200 0 pop [] g0 [] = ([], g1, Inl IndexError)"
    by (simp add: eval_nat_numeral)
  with pop show ?thesis by (simp add: evolve_def)
qed

lemma compile_individual_eq_Nil [simp]: "compile_individual gpc t X = [] \<longleftrightarrow> X = []"
  by (simp add: compile_individual_def)

lemma evolve_empty_validation:
  assumes "train_X \<noteq> []" and "train_y \<noteq> []"
  shows "\<exists>mx mean g1. evolve d train_X train_y [] [] g = ([GenLine 0 mx mean], g1, Inl IndexError)"
proof -
  let ?tb = "make_toolbox d train_X train_y"
  obtain pop g0 where pop: "population ?tb 400 g = (pop, g0)" by (cases "population ?tb 400 g")
  obtain pop1 g1 where var: "varAnd (random_random d) pop ?tb 0.5 0.4 g0 = (pop1, g1)"
    by (cases "varAnd (random_random d) pop ?tb 0.5 0.4 g0")
  have len: "length pop1 = 400"
    using population_length [OF pop] length_varAnd [OF var] by simp
  have "\<forall>x \<in> set pop1. \<exists>y. evaluate ?tb x = Inr y"
    using assms by (simp add: make_toolbox_def fitness_function_returns)
  then obtain fits where fits: "map_evaluate (evaluate ?tb) pop1 = Inr fits"
    "length fits = length pop1"
    using map_evaluate_ok by blast
  from len have "pop1 \<noteq> []" by auto
  with fits(2) obtain mx mean where
    st: "stats_compile (map2 (\<lambda>ind fit. ind\<lparr>fitness := Some fit\<rparr>) pop1 fits) = Inr (mx, mean)"
    using stats_compile_ok by blast
  have val: "\<And>b. total_return (compile ?tb b []) [] = Inl IndexError"
    by (simp add: make_toolbox_def total_return_empty)
  from evolve_loop_empty_validation [OF var fits(1) st val, of 199 0 "[]" "[]"]
  have "evolve_loop d ?tb [] [] 200 0 pop [] g0 [] = ([GenLine 0 mx mean], g1, Inl IndexError)"
    by (simp add: eval_nat_numeral)
  with pop show ?thesis by (simp add: evolve_def)
qed

text \<open>
  Claim C8, as amended. \<open>evolve\<close> checks none of its inputs before the loop, and the
  population size is the constant 400. With a non-empty training split and an empty
  validation split the call raises IndexError at the first early-stop check, after
  generation 0 has been varied, evaluated, archived and printed. With an empty training
  split it raises IndexError in the first fitness evaluation of generation 0, after the
  population has been built and varied.
\<close>

theorem evolve_raises_inside_generation_zero:
  "(train_X \<noteq> [] \<and> train_y \<noteq> [] \<longrightarrow>
      (\<exists>mx mean g1. evolve d train_X train_y [] [] g
          = ([GenLine 0 mx mean], g1, Inl IndexError)))
   \<and> (\<exists>g1. evolve d [] [] val_X val_y g = ([], g1, Inl IndexError))"
  using evolve_empty_validation [of train_X train_y d g] evolve_empty_training [of d val_X val_y g]
  by blast

theorem evolve_raises_inside_generation_zero_witness:
  "[[Fin 0]] \<noteq> [] \<and> [0.5 :: real] \<noteq> []
   \<and> (\<exists>mx mean g1. evolve example_deap [[Fin 0]] [0.5] [] [] 0
          = ([GenLine 0 mx mean], g1, Inl IndexError))
   \<and> (\<exists>g1. evolve example_deap [] [] [[Fin 0]] [0.5] 0 = ([], g1, Inl IndexError))"
  using evolve_raises_inside_generation_zero [of "[[Fin 0]]" "[0.5]" example_deap 0 "[[Fin 0]]" "[0.5]"]
  by simp

text \<open>
  Claim C8 as stated fails on an empty validation split: on the example operators, with
  the one-row training split \<open>X0 = 0.0\<close>, \<open>y = 0.5\<close>, the call prints the line of
  generation 0 (400 individuals evaluated, fitness 0.0 each, 1000 random draws made) and
  only then raises IndexError.
\<close>

theorem evolve_empty_validation_counterexample:
  "evolve example_deap [[Fin 0]] [0.5] [] [] 0
     = ([GenLine 0 (Fin 0) (Fin 0)], 1000, Inl IndexError)"
proof -
  let ?tb = "make_toolbox example_deap [[Fin 0]] [0.5]"
  let ?pop = "replicate 400 \<lparr>tree = 1::nat, fitness = None\<rparr>"
  have var: "varAnd (random_random example_deap) ?pop ?tb 0.5 0.4 400 = (?pop, 1000)"
    by (simp add: example_varAnd)
  have ev: "map_evaluate (evaluate ?tb) ?pop = Inr (replicate 400 (Fin 0))"
    by (rule map_evaluate_replicate) (rule example_evaluate_flat)
  have upd: "map2 (\<lambda>ind fit. ind\<lparr>fitness := Some fit\<rparr>) ?pop (replicate 400 (Fin 0))
               = replicate 400 \<lparr>tree = 1, fitness = Some (Fin 0)\<rparr>"
    by (simp add: zip_replicate)
  have st: "stats_compile (map2 (\<lambda>ind fit. ind\<lparr>fitness := Some fit\<rparr>) ?pop (replicate 400 (Fin 0)))
              = Inr (Fin 0, Fin 0)"
    unfolding upd by (rule stats_compile_replicate_zero) simp
  have val: "\<And>b. total_return (compile ?tb b []) [] = Inl IndexError"
    by (simp add: make_toolbox_def total_return_empty)
  from evolve_loop_empty_validation [OF var ev st val, of 199 0 "[]" "[]"]
  have "evolve_loop example_deap ?tb [] [] 200 0 ?pop [] 400 []
          = ([GenLine 0 (Fin 0) (Fin 0)], 1000, Inl IndexError)"
    by (simp add: eval_nat_numeral)
  then show ?thesis by (simp add: evolve_def example_population)
qed

section \<open>Seeding\<close>














end
